theory Spec2Isabelle
  imports Main
begin

section \<open>Workout API: a CRUD service over one table\<close>

text \<open>
  The source is a FastAPI application with five route handlers over one SQLAlchemy
  table, \<^verbatim>\<open>workouts\<close>. The handlers are embedded line by line. The two libraries
  they call are embedded by what the handlers use of them:
  \<^item> the session (\<^verbatim>\<open>db\<close>) is the table, a list of rows in storage order; \<^verbatim>\<open>commit\<close>
    is the moment a change reaches the table, so a handler that raises before its
    \<^verbatim>\<open>commit\<close> returns the table it was given;
  \<^item> a new primary key is the largest key in the table plus one, and 1 on an empty
    table (the rule of the configured engine, SQLite, for an integer primary key);
  \<^item> Python integers are unbounded, \<open>int\<close>, and the engine stores signed 64-bit
    integers: an integer outside that range, given to the engine as a key to look up
    or as a column value to write, raises \<^verbatim>\<open>OverflowError\<close>, and the request is
    answered 500 with nothing written;
  \<^item> text is a \<open>string\<close>; values the engine cannot encode are not modelled;
  \<^item> request validation is taken twice: \<open>validate\<close> and \<open>app\<close> have the
    deserialisers of a raw body value to \<^verbatim>\<open>str\<close> and to \<^verbatim>\<open>int\<close> as parameters, and
    \<open>str_validator\<close> and \<open>int_validator\<close> are those of pydantic 1, whose interface
    (\<^verbatim>\<open>orm_mode\<close>, \<^verbatim>\<open>dict()\<close>) the source is written against.
\<close>

subsection \<open>Schemas (app/schemas.py)\<close>

record WorkoutBase =
  title :: string
  load :: int
  reps :: int

type_synonym WorkoutCreate = WorkoutBase
type_synonym WorkoutUpdate = WorkoutBase

record WorkoutOut = WorkoutBase +
  id' :: int

text \<open>Values of a Python dictionary of fields: a \<^verbatim>\<open>str\<close> or an \<^verbatim>\<open>int\<close>.\<close>

datatype pyval = PStr string | PInt int

text \<open>\<^verbatim>\<open>model.dict()\<close>: the fields of the schema, in declaration order.\<close>

definition dict :: "WorkoutBase \<Rightarrow> (string \<times> pyval) list" where
  "dict m = [(''title'', PStr (title m)), (''load'', PInt (load m)), (''reps'', PInt (reps m))]"

subsection \<open>The table (app/models.py)\<close>

text \<open>
  An instance of \<^verbatim>\<open>models.Workout\<close>. The primary key is \<open>None\<close> on an object that
  has not been inserted yet; the other three columns are always given by the
  constructor call of \<^verbatim>\<open>create_workout\<close>.
\<close>

record Workout =
  id_col :: "int option"
  title_col :: string
  load_col :: int
  reps_col :: int

text \<open>\<^verbatim>\<open>models.Workout(**workout.dict())\<close>: the three fields as keyword arguments.\<close>

definition Workout_init :: "WorkoutBase \<Rightarrow> Workout" where
  "Workout_init workout =
     \<lparr>id_col = None, title_col = title workout, load_col = load workout, reps_col = reps workout\<rparr>"

text \<open>
  \<^verbatim>\<open>setattr(workout, key, value)\<close> on a mapped object. A key that is not a column
  sets a plain Python attribute, which is never written to the table, so it does
  not change the row. \<^verbatim>\<open>dict\<close> only produces a \<^verbatim>\<open>str\<close> for \<^verbatim>\<open>title\<close> and an \<^verbatim>\<open>int\<close> for
  \<^verbatim>\<open>load\<close> and \<^verbatim>\<open>reps\<close>.
\<close>

fun setattr :: "Workout \<Rightarrow> string \<times> pyval \<Rightarrow> Workout" where
  "setattr w (key, PInt n) =
     (if key = ''id'' then w\<lparr>id_col := Some n\<rparr>
      else if key = ''load'' then w\<lparr>load_col := n\<rparr>
      else if key = ''reps'' then w\<lparr>reps_col := n\<rparr>
      else w)"
| "setattr w (key, PStr s) =
     (if key = ''title'' then w\<lparr>title_col := s\<rparr> else w)"

subsection \<open>The session (app/database.py)\<close>

record Session =
  workouts :: "Workout list"

text \<open>The integers the engine stores and accepts as parameters: signed, 64 bits.\<close>

definition int64 :: "int \<Rightarrow> bool" where
  "int64 n \<longleftrightarrow> - (2 ^ 63) \<le> n \<and> n < 2 ^ 63"

datatype error =
  HTTPException nat string | InvalidRequestError | OverflowError | OperationalError

definition rowids :: "Session \<Rightarrow> int list" where
  "rowids db = List.map_filter id_col (workouts db)"

definition next_rowid :: "Session \<Rightarrow> int" where
  "next_rowid db = (if rowids db = [] then 1 else Max (set (rowids db)) + 1)"

text \<open>
  \<^verbatim>\<open>db.add(obj); db.commit()\<close>: insert the object under a generated key. The column
  values are bound first, and one outside the engine's range raises
  \<^verbatim>\<open>OverflowError\<close>. When the largest key is already the largest integer of the
  engine, the engine looks for an unused key at random, which a function cannot
  follow: there the insert is refused. No sequence of fewer than \<open>2 ^ 63 - 1\<close>
  creates leads there.
\<close>

definition add_commit :: "Session \<Rightarrow> Workout \<Rightarrow> error + Session \<times> Workout" where
  "add_commit db obj =
     (if \<not> (int64 (load_col obj) \<and> int64 (reps_col obj)) then Inl OverflowError
      else if \<not> int64 (next_rowid db) then Inl OperationalError
      else
        (let obj' = obj\<lparr>id_col := Some (next_rowid db)\<rparr>
         in Inr (db\<lparr>workouts := workouts db @ [obj']\<rparr>, obj')))"

text \<open>
  \<^verbatim>\<open>db.query(models.Workout).get(workout_id)\<close>: the key is bound as a parameter of
  the query, which raises \<^verbatim>\<open>OverflowError\<close> outside the engine's range; otherwise
  the row with that key, or \<open>None\<close>.
\<close>

definition query_get :: "Session \<Rightarrow> int \<Rightarrow> error + Workout option" where
  "query_get db workout_id =
     (if int64 workout_id
      then Inr (find (\<lambda>r. id_col r = Some workout_id) (workouts db))
      else Inl OverflowError)"

text \<open>\<^verbatim>\<open>db.query(models.Workout).all()\<close>\<close>

definition query_all :: "Session \<Rightarrow> Workout list" where
  "query_all db = workouts db"

text \<open>
  \<^verbatim>\<open>db.commit()\<close> with a modified object loaded under key \<open>workout_id\<close>: the new
  column values are bound, and one outside the engine's range raises
  \<^verbatim>\<open>OverflowError\<close> with nothing written; otherwise the rows of that key take the
  object's columns.
\<close>

definition commit_dirty :: "Session \<Rightarrow> int \<Rightarrow> Workout \<Rightarrow> error + Session" where
  "commit_dirty db workout_id obj =
     (if int64 (load_col obj) \<and> int64 (reps_col obj)
      then Inr (db\<lparr>workouts :=
                  map (\<lambda>r. if id_col r = Some workout_id then obj else r) (workouts db)\<rparr>)
      else Inl OverflowError)"

text \<open>\<^verbatim>\<open>db.delete(obj); db.commit()\<close>, on an object that was loaded from the table.\<close>

definition delete_commit :: "Session \<Rightarrow> Workout \<Rightarrow> Session" where
  "delete_commit db obj = db\<lparr>workouts := filter (\<lambda>r. id_col r \<noteq> id_col obj) (workouts db)\<rparr>"

text \<open>
  \<^verbatim>\<open>db.refresh(obj)\<close>: read the object's row again by its key. It raises when the
  object has no key or its row is gone.
\<close>

definition refresh :: "Session \<Rightarrow> Workout \<Rightarrow> error + Workout" where
  "refresh db obj =
     (case id_col obj of
        None \<Rightarrow> Inl InvalidRequestError
      | Some i \<Rightarrow>
          (case query_get db i of
             Inl e \<Rightarrow> Inl e
           | Inr None \<Rightarrow> Inl InvalidRequestError
           | Inr (Some w) \<Rightarrow> Inr w))"

subsection \<open>Handlers (app/routers/workouts.py)\<close>

text \<open>
  An exception of the session leaves the handler where it is raised. The session is
  then closed without a commit, so the table is the one of the last commit.
\<close>

definition create_workout :: "WorkoutCreate \<Rightarrow> Session \<Rightarrow> (error + Workout) \<times> Session" where
  "create_workout workout db =
     (let db_workout = Workout_init workout
      in case add_commit db db_workout of
           Inl e \<Rightarrow> (Inl e, db)
         | Inr (db', db_workout') \<Rightarrow>
             (case refresh db' db_workout' of
                Inl e \<Rightarrow> (Inl e, db')
              | Inr w \<Rightarrow> (Inr w, db')))"

definition get_workouts :: "Session \<Rightarrow> Workout list" where
  "get_workouts db = query_all db"

definition get_workout :: "int \<Rightarrow> Session \<Rightarrow> error + Workout" where
  "get_workout workout_id db =
     (case query_get db workout_id of
        Inl e \<Rightarrow> Inl e
      | Inr None \<Rightarrow> Inl (HTTPException 404 ''Workout not found'')
      | Inr (Some workout) \<Rightarrow> Inr workout)"

definition update_workout :: "int \<Rightarrow> WorkoutUpdate \<Rightarrow> Session \<Rightarrow> (error + Workout) \<times> Session" where
  "update_workout workout_id update db =
     (case query_get db workout_id of
        Inl e \<Rightarrow> (Inl e, db)
      | Inr None \<Rightarrow> (Inl (HTTPException 404 ''Workout not found''), db)
      | Inr (Some workout) \<Rightarrow>
          (let workout' = fold (\<lambda>item w. setattr w item) (dict update) workout
           in case commit_dirty db workout_id workout' of
                Inl e \<Rightarrow> (Inl e, db)
              | Inr db' \<Rightarrow>
                  (case refresh db' workout' of
                     Inl e \<Rightarrow> (Inl e, db')
                   | Inr w \<Rightarrow> (Inr w, db'))))"

definition delete_workout :: "int \<Rightarrow> Session \<Rightarrow> (error + unit) \<times> Session" where
  "delete_workout workout_id db =
     (case query_get db workout_id of
        Inl e \<Rightarrow> (Inl e, db)
      | Inr None \<Rightarrow> (Inl (HTTPException 404 ''Workout not found''), db)
      | Inr (Some workout) \<Rightarrow> (Inr (), delete_commit db workout))"

subsection \<open>Routes: the decorators of the handlers\<close>

datatype json_content =
  Empty | Object WorkoutOut | Array "WorkoutOut list" | Detail string
  | ValidationErrors | InternalServerError

record response =
  status_code :: nat
  content :: json_content

text \<open>
  \<^verbatim>\<open>response_model=schemas.WorkoutOut\<close> with \<^verbatim>\<open>orm_mode\<close>: the four fields are read
  from the object; \<^verbatim>\<open>id: int\<close> refuses \<open>None\<close>.
\<close>

definition from_orm :: "Workout \<Rightarrow> WorkoutOut option" where
  "from_orm obj =
     (case id_col obj of
        None \<Rightarrow> None
      | Some i \<Rightarrow> Some \<lparr>title = title_col obj, load = load_col obj, reps = reps_col obj, id' = i\<rparr>)"

definition error_response :: "error \<Rightarrow> response" where
  "error_response e =
     (case e of
        HTTPException code detail \<Rightarrow> \<lparr>status_code = code, content = Detail detail\<rparr>
      | InvalidRequestError \<Rightarrow> \<lparr>status_code = 500, content = InternalServerError\<rparr>
      | OverflowError \<Rightarrow> \<lparr>status_code = 500, content = InternalServerError\<rparr>
      | OperationalError \<Rightarrow> \<lparr>status_code = 500, content = InternalServerError\<rparr>)"

definition response_model :: "nat \<Rightarrow> error + Workout \<Rightarrow> response" where
  "response_model code r =
     (case r of
        Inl e \<Rightarrow> error_response e
      | Inr obj \<Rightarrow>
          (case from_orm obj of
             None \<Rightarrow> \<lparr>status_code = 500, content = InternalServerError\<rparr>
           | Some out \<Rightarrow> \<lparr>status_code = code, content = Object out\<rparr>))"

definition POST_workouts :: "WorkoutCreate \<Rightarrow> Session \<Rightarrow> response \<times> Session" where
  "POST_workouts workout db =
     (let (r, db') = create_workout workout db in (response_model 201 r, db'))"

definition GET_workouts :: "Session \<Rightarrow> response \<times> Session" where
  "GET_workouts db =
     (case those (map from_orm (get_workouts db)) of
        None \<Rightarrow> (\<lparr>status_code = 500, content = InternalServerError\<rparr>, db)
      | Some outs \<Rightarrow> (\<lparr>status_code = 200, content = Array outs\<rparr>, db))"

definition GET_workout :: "int \<Rightarrow> Session \<Rightarrow> response \<times> Session" where
  "GET_workout workout_id db = (response_model 200 (get_workout workout_id db), db)"

definition PUT_workout :: "int \<Rightarrow> WorkoutUpdate \<Rightarrow> Session \<Rightarrow> response \<times> Session" where
  "PUT_workout workout_id update db =
     (let (r, db') = update_workout workout_id update db in (response_model 200 r, db'))"

definition DELETE_workout :: "int \<Rightarrow> Session \<Rightarrow> response \<times> Session" where
  "DELETE_workout workout_id db =
     (let (r, db') = delete_workout workout_id db
      in (case r of
            Inl e \<Rightarrow> error_response e
          | Inr u \<Rightarrow> \<lparr>status_code = 204, content = Empty\<rparr>, db'))"

subsection \<open>Requests: body validation, then the route\<close>

text \<open>
  A request body is a JSON object, a dictionary from field names to raw values of
  some type \<open>'j\<close>. \<open>as_str\<close> and \<open>as_int\<close> are the deserialisers of the framework
  for the annotations \<^verbatim>\<open>str\<close> and \<^verbatim>\<open>int\<close>; \<open>None\<close> is a type mismatch. The three
  fields of \<^verbatim>\<open>WorkoutBase\<close> are required; other keys are ignored.
\<close>

definition validate ::
  "('j \<Rightarrow> string option) \<Rightarrow> ('j \<Rightarrow> int option) \<Rightarrow> (string \<rightharpoonup> 'j) \<Rightarrow> WorkoutBase option" where
  "validate as_str as_int body =
     (case Option.bind (body ''title'') as_str of
        None \<Rightarrow> None
      | Some t \<Rightarrow>
          (case Option.bind (body ''load'') as_int of
             None \<Rightarrow> None
           | Some l \<Rightarrow>
               (case Option.bind (body ''reps'') as_int of
                  None \<Rightarrow> None
                | Some r \<Rightarrow> Some \<lparr>title = t, load = l, reps = r\<rparr>)))"

datatype 'j request =
  POST "string \<rightharpoonup> 'j" | GET_all | GET int | PUT int "string \<rightharpoonup> 'j" | DELETE int

definition app ::
  "('j \<Rightarrow> string option) \<Rightarrow> ('j \<Rightarrow> int option) \<Rightarrow> 'j request \<Rightarrow> Session \<Rightarrow> response \<times> Session" where
  "app as_str as_int req db =
     (case req of
        POST body \<Rightarrow>
          (case validate as_str as_int body of
             None \<Rightarrow> (\<lparr>status_code = 422, content = ValidationErrors\<rparr>, db)
           | Some workout \<Rightarrow> POST_workouts workout db)
      | GET_all \<Rightarrow> GET_workouts db
      | GET workout_id \<Rightarrow> GET_workout workout_id db
      | PUT workout_id body \<Rightarrow>
          (case validate as_str as_int body of
             None \<Rightarrow> (\<lparr>status_code = 422, content = ValidationErrors\<rparr>, db)
           | Some update \<Rightarrow> PUT_workout workout_id update db)
      | DELETE workout_id \<Rightarrow> DELETE_workout workout_id db)"

subsection \<open>The deserialisers of pydantic 1\<close>

text \<open>
  A raw value of a JSON body. Numbers with a fraction or an exponent are left out.
\<close>

datatype json =
  JNull | JBool bool | JInt int | JStr string | JArray "json list"
  | JObject "(string \<times> json) list"

text \<open>
  Python's \<^verbatim>\<open>int(s)\<close> on a string of ASCII characters: white space around, an
  optional sign, then decimal digits, with single underscores allowed between two
  digits. Limits on the number of digits are not modelled.
\<close>

definition isdigit :: "char \<Rightarrow> bool" where
  "isdigit c \<longleftrightarrow> 48 \<le> (of_char c :: nat) \<and> (of_char c :: nat) \<le> 57"

definition isspace :: "char \<Rightarrow> bool" where
  "isspace c \<longleftrightarrow> (of_char c :: nat) \<in> {9, 10, 11, 12, 13, 28, 29, 30, 31, 32}"

definition strip :: "string \<Rightarrow> string" where
  "strip s = rev (dropWhile isspace (rev (dropWhile isspace s)))"

fun digits :: "nat \<Rightarrow> string \<Rightarrow> nat option" where
  "digits acc [] = Some acc"
| "digits acc [c] = (if isdigit c then Some (10 * acc + (of_char c - 48)) else None)"
| "digits acc (c # d # cs) =
     (if isdigit c then digits (10 * acc + (of_char c - 48)) (d # cs)
      else if c = CHR ''_'' \<and> isdigit d then digits (10 * acc + (of_char d - 48)) cs
      else None)"

definition unsigned :: "string \<Rightarrow> nat option" where
  "unsigned s =
     (case s of
        [] \<Rightarrow> None
      | c # cs \<Rightarrow> if isdigit c then digits (of_char c - 48) cs else None)"

definition py_int :: "string \<Rightarrow> int option" where
  "py_int s =
     (case strip s of
        [] \<Rightarrow> None
      | c # cs \<Rightarrow>
          if c = CHR ''-'' then map_option (\<lambda>n. - int n) (unsigned cs)
          else if c = CHR ''+'' then map_option int (unsigned cs)
          else map_option int (unsigned (c # cs)))"

text \<open>Python's \<^verbatim>\<open>str(n)\<close> on an integer: its decimal digits, after a minus sign if negative.\<close>

fun decimal :: "nat \<Rightarrow> string" where
  "decimal n =
     (if n < 10 then [char_of (48 + n)]
      else decimal (n div 10) @ [char_of (48 + n mod 10)])"

definition py_str :: "int \<Rightarrow> string" where
  "py_str n = (if n < 0 then CHR ''-'' # decimal (nat (- n)) else decimal (nat n))"

text \<open>
  \<^verbatim>\<open>title: str\<close>: a string is taken as it is and a number is written out, as is a
  boolean, which Python counts among the integers; anything else is refused.
\<close>

definition str_validator :: "json \<Rightarrow> string option" where
  "str_validator v =
     (case v of
        JStr s \<Rightarrow> Some s
      | JInt n \<Rightarrow> Some (py_str n)
      | JBool b \<Rightarrow> Some (if b then ''True'' else ''False'')
      | JNull \<Rightarrow> None
      | JArray xs \<Rightarrow> None
      | JObject kvs \<Rightarrow> None)"

text \<open>
  \<^verbatim>\<open>load: int\<close>, \<^verbatim>\<open>reps: int\<close>: an integer is taken as it is, a boolean is 1 or 0,
  a string goes through \<^verbatim>\<open>int(s)\<close>; anything else is refused.
\<close>

definition int_validator :: "json \<Rightarrow> int option" where
  "int_validator v =
     (case v of
        JInt n \<Rightarrow> Some n
      | JBool b \<Rightarrow> Some (if b then 1 else 0)
      | JStr s \<Rightarrow> py_int s
      | JNull \<Rightarrow> None
      | JArray xs \<Rightarrow> None
      | JObject kvs \<Rightarrow> None)"

subsection \<open>The invariant of the table\<close>

text \<open>
  Every stored row has a key, keys are positive integers of the engine, and no two
  rows share a key. The empty table satisfies it and every request preserves it.
\<close>

definition db_ok :: "Session \<Rightarrow> bool" where
  "db_ok db \<longleftrightarrow>
     distinct (map id_col (workouts db)) \<and>
     list_all (\<lambda>r. case id_col r of None \<Rightarrow> False | Some i \<Rightarrow> 0 < i \<and> int64 i) (workouts db)"

text \<open>The tables the service can be in: the empty one, and what a request makes of one.\<close>

inductive reachable ::
  "('j \<Rightarrow> string option) \<Rightarrow> ('j \<Rightarrow> int option) \<Rightarrow> Session \<Rightarrow> bool"
  for as_str :: "'j \<Rightarrow> string option" and as_int :: "'j \<Rightarrow> int option" where
  initial: "reachable as_str as_int \<lparr>workouts = []\<rparr>"
| request: "reachable as_str as_int db \<Longrightarrow> reachable as_str as_int (snd (app as_str as_int req db))"

subsection \<open>Auxiliary facts about the session\<close>

lemma fold_setattr_dict:
  "fold (\<lambda>item w. setattr w item) (dict u) w =
     w\<lparr>title_col := title u, load_col := load u, reps_col := reps u\<rparr>"
  by (simp add: dict_def)

lemma find_Some_key: "find P xs = Some x \<Longrightarrow> P x \<and> x \<in> set xs"
  by (induction xs) (auto split: if_splits)

lemma find_None_key: "find P xs = None \<longleftrightarrow> (\<forall>x\<in>set xs. \<not> P x)"
  by (induction xs) auto

lemma find_append_key:
  "find P (xs @ ys) = (case find P xs of None \<Rightarrow> find P ys | Some x \<Rightarrow> Some x)"
  by (induction xs) auto

lemma find_replace:
  "P obj \<Longrightarrow> find P (map (\<lambda>r. if P r then obj else r) xs) = (if \<exists>x\<in>set xs. P x then Some obj else None)"
  by (induction xs) auto

lemma query_get_out: "\<not> int64 i \<Longrightarrow> query_get db i = Inl OverflowError"
  by (simp add: query_get_def)

lemma query_get_Inl: "query_get db i = Inl e \<Longrightarrow> e = OverflowError \<and> \<not> int64 i"
  by (simp add: query_get_def split: if_splits)

lemma query_get_Some:
  "query_get db i = Inr (Some w) \<Longrightarrow> id_col w = Some i \<and> w \<in> set (workouts db) \<and> int64 i"
  using find_Some_key [of "\<lambda>r. id_col r = Some i" "workouts db" w]
  by (simp add: query_get_def split: if_splits)

lemma query_get_None:
  "query_get db i = Inr None \<longleftrightarrow> int64 i \<and> Some i \<notin> id_col ` set (workouts db)"
  by (force simp: query_get_def find_None_key)

lemma query_get_found:
  assumes "int64 i" and "Some i \<in> id_col ` set (workouts db)"
  shows "\<exists>w. query_get db i = Inr (Some w)"
proof (cases "find (\<lambda>r. id_col r = Some i) (workouts db)")
  case None
  with assms(2) show ?thesis by (force simp: find_None_key)
next
  case (Some w)
  with assms(1) show ?thesis by (simp add: query_get_def)
qed

lemma map_filter_mem: "k \<in> set (List.map_filter f xs) \<longleftrightarrow> Some k \<in> f ` set xs"
  by (induction xs) (auto split: option.splits)

lemma rowids_mem: "k \<in> set (rowids db) \<longleftrightarrow> Some k \<in> id_col ` set (workouts db)"
  unfolding rowids_def by (rule map_filter_mem)

lemma next_rowid_greater: "Some k \<in> id_col ` set (workouts db) \<Longrightarrow> k < next_rowid db"
proof -
  assume "Some k \<in> id_col ` set (workouts db)"
  then have k: "k \<in> set (rowids db)" by (simp add: rowids_mem)
  then have "rowids db \<noteq> []" by auto
  moreover have "k \<le> Max (set (rowids db))" using k by simp
  ultimately show ?thesis by (simp add: next_rowid_def)
qed

lemma next_rowid_fresh: "Some (next_rowid db) \<notin> id_col ` set (workouts db)"
  using next_rowid_greater [of "next_rowid db" db] by auto

lemma db_ok_iff:
  "db_ok db \<longleftrightarrow>
     distinct (map id_col (workouts db)) \<and>
     (\<forall>r\<in>set (workouts db). \<exists>i. id_col r = Some i \<and> 0 < i \<and> int64 i)"
  by (auto simp: db_ok_def list_all_iff split: option.splits)

lemma db_ok_empty: "db_ok \<lparr>workouts = []\<rparr>"
  by (simp add: db_ok_def)

lemma db_ok_key: "db_ok db \<Longrightarrow> Some i \<in> id_col ` set (workouts db) \<Longrightarrow> 0 < i \<and> int64 i"
  by (force simp: db_ok_iff)

lemma next_rowid_pos: "db_ok db \<Longrightarrow> 0 < next_rowid db"
proof (cases "rowids db = []")
  case True
  then show ?thesis by (simp add: next_rowid_def)
next
  case False
  assume ok: "db_ok db"
  from False obtain k where k: "k \<in> set (rowids db)" by (cases "rowids db") auto
  then have "Some k \<in> id_col ` set (workouts db)" by (simp add: rowids_mem)
  with ok have "0 < k" by (simp add: db_ok_key)
  moreover have "k < next_rowid db" using k by (simp add: rowids_mem next_rowid_greater)
  ultimately show ?thesis by simp
qed

lemma create_workout_eq:
  assumes "int64 (load workout)" and "int64 (reps workout)" and "int64 (next_rowid db)"
  shows "create_workout workout db =
     (Inr \<lparr>id_col = Some (next_rowid db), title_col = title workout, load_col = load workout, reps_col = reps workout\<rparr>,
      db\<lparr>workouts := workouts db @
        [\<lparr>id_col = Some (next_rowid db), title_col = title workout, load_col = load workout, reps_col = reps workout\<rparr>]\<rparr>)"
proof -
  have "find (\<lambda>r. id_col r = Some (next_rowid db)) (workouts db) = None"
    using next_rowid_fresh [of db] by (force simp: find_None_key)
  with assms show ?thesis
    by (simp add: create_workout_def Workout_init_def add_commit_def refresh_def query_get_def
        Let_def find_append_key)
qed

lemma POST_workouts_eq:
  assumes "int64 (load workout)" and "int64 (reps workout)" and "int64 (next_rowid db)"
  shows "POST_workouts workout db =
     (\<lparr>status_code = 201,
        content = Object \<lparr>title = title workout, load = load workout, reps = reps workout, id' = next_rowid db\<rparr>\<rparr>,
      db\<lparr>workouts := workouts db @
        [\<lparr>id_col = Some (next_rowid db), title_col = title workout, load_col = load workout, reps_col = reps workout\<rparr>]\<rparr>)"
  by (simp add: POST_workouts_def create_workout_eq [OF assms] response_model_def from_orm_def)

lemma POST_workouts_refused:
  assumes "\<not> (int64 (load workout) \<and> int64 (reps workout) \<and> int64 (next_rowid db))"
  shows "POST_workouts workout db = (\<lparr>status_code = 500, content = InternalServerError\<rparr>, db)"
  using assms
  by (auto simp: POST_workouts_def create_workout_def Workout_init_def add_commit_def
      response_model_def error_response_def)

lemma GET_workout_overflow:
  "\<not> int64 i \<Longrightarrow> GET_workout i db = (\<lparr>status_code = 500, content = InternalServerError\<rparr>, db)"
  by (simp add: GET_workout_def get_workout_def query_get_out response_model_def error_response_def)

lemma GET_workout_missing:
  "int64 i \<Longrightarrow> Some i \<notin> id_col ` set (workouts db) \<Longrightarrow>
     GET_workout i db = (\<lparr>status_code = 404, content = Detail ''Workout not found''\<rparr>, db)"
  using query_get_None [of db i]
  by (simp add: GET_workout_def get_workout_def response_model_def error_response_def)

lemma GET_workout_found:
  "query_get db i = Inr (Some w) \<Longrightarrow>
     GET_workout i db =
       (\<lparr>status_code = 200,
          content = Object \<lparr>title = title_col w, load = load_col w, reps = reps_col w, id' = i\<rparr>\<rparr>, db)"
  using query_get_Some [of db i w]
  by (simp add: GET_workout_def get_workout_def response_model_def from_orm_def)

lemma PUT_workout_overflow:
  "\<not> int64 i \<Longrightarrow> PUT_workout i u db = (\<lparr>status_code = 500, content = InternalServerError\<rparr>, db)"
  by (simp add: PUT_workout_def update_workout_def query_get_out response_model_def error_response_def)

lemma PUT_workout_missing:
  "int64 i \<Longrightarrow> Some i \<notin> id_col ` set (workouts db) \<Longrightarrow>
     PUT_workout i u db = (\<lparr>status_code = 404, content = Detail ''Workout not found''\<rparr>, db)"
  using query_get_None [of db i]
  by (simp add: PUT_workout_def update_workout_def response_model_def error_response_def)

lemma PUT_workout_refused:
  assumes "query_get db i = Inr (Some w)" and "\<not> (int64 (load u) \<and> int64 (reps u))"
  shows "PUT_workout i u db = (\<lparr>status_code = 500, content = InternalServerError\<rparr>, db)"
  using assms
  by (auto simp: PUT_workout_def update_workout_def fold_setattr_dict commit_dirty_def
      response_model_def error_response_def)

lemma update_workout_found:
  assumes "query_get db i = Inr (Some w)" and "int64 (load u)" and "int64 (reps u)"
  shows "update_workout i u db =
     (Inr (w\<lparr>title_col := title u, load_col := load u, reps_col := reps u\<rparr>),
      db\<lparr>workouts :=
           map (\<lambda>r. if id_col r = Some i
                     then w\<lparr>title_col := title u, load_col := load u, reps_col := reps u\<rparr>
                     else r) (workouts db)\<rparr>)"
proof -
  let ?w' = "w\<lparr>title_col := title u, load_col := load u, reps_col := reps u\<rparr>"
  have w: "id_col w = Some i" "w \<in> set (workouts db)" "int64 i"
    using query_get_Some [OF assms(1)] by simp_all
  then have "\<exists>x\<in>set (workouts db). id_col x = Some i" by blast
  then have "find (\<lambda>r. id_col r = Some i)
      (map (\<lambda>r. if id_col r = Some i then ?w' else r) (workouts db)) = Some ?w'"
    using find_replace [of "\<lambda>r. id_col r = Some i" ?w' "workouts db"] w(1) by simp
  with assms w show ?thesis
    by (simp add: update_workout_def fold_setattr_dict commit_dirty_def refresh_def
        query_get_def Let_def)
qed

lemma PUT_workout_found:
  assumes "query_get db i = Inr (Some w)" and "int64 (load u)" and "int64 (reps u)"
  shows "PUT_workout i u db =
     (\<lparr>status_code = 200,
        content = Object \<lparr>title = title u, load = load u, reps = reps u, id' = i\<rparr>\<rparr>,
      db\<lparr>workouts :=
           map (\<lambda>r. if id_col r = Some i
                     then w\<lparr>title_col := title u, load_col := load u, reps_col := reps u\<rparr>
                     else r) (workouts db)\<rparr>)"
  using query_get_Some [OF assms(1)]
  by (simp add: PUT_workout_def update_workout_found [OF assms] response_model_def from_orm_def)

lemma DELETE_workout_overflow:
  "\<not> int64 i \<Longrightarrow> DELETE_workout i db = (\<lparr>status_code = 500, content = InternalServerError\<rparr>, db)"
  by (simp add: DELETE_workout_def delete_workout_def query_get_out error_response_def)

lemma DELETE_workout_missing:
  "int64 i \<Longrightarrow> Some i \<notin> id_col ` set (workouts db) \<Longrightarrow>
     DELETE_workout i db = (\<lparr>status_code = 404, content = Detail ''Workout not found''\<rparr>, db)"
  using query_get_None [of db i]
  by (simp add: DELETE_workout_def delete_workout_def error_response_def)

lemma DELETE_workout_found:
  assumes "query_get db i = Inr (Some w)"
  shows "DELETE_workout i db =
     (\<lparr>status_code = 204, content = Empty\<rparr>,
      db\<lparr>workouts := filter (\<lambda>r. id_col r \<noteq> Some i) (workouts db)\<rparr>)"
  using query_get_Some [OF assms]
  by (simp add: DELETE_workout_def delete_workout_def delete_commit_def assms)

lemma query_get_cases:
  obtains "\<not> int64 i" "query_get db i = Inl OverflowError"
  | "int64 i" "Some i \<notin> id_col ` set (workouts db)" "query_get db i = Inr None"
  | w where "int64 i" "Some i \<in> id_col ` set (workouts db)" "query_get db i = Inr (Some w)"
proof (cases "int64 i")
  case False
  then show ?thesis using that(1) query_get_out by blast
next
  case True
  show ?thesis
  proof (cases "Some i \<in> id_col ` set (workouts db)")
    case False
    with True show ?thesis using that(2) query_get_None by blast
  next
    case present: True
    from query_get_found [OF True present] obtain w where "query_get db i = Inr (Some w)" by blast
    with True present show ?thesis using that(3) by blast
  qed
qed

lemma POST_workouts_db_ok:
  assumes "db_ok db"
  shows "db_ok (snd (POST_workouts workout db))"
proof (cases "int64 (load workout) \<and> int64 (reps workout) \<and> int64 (next_rowid db)")
  case False
  then show ?thesis using assms by (simp add: POST_workouts_refused)
next
  case True
  have "distinct (map id_col (workouts db) @ [Some (next_rowid db)])"
    using assms next_rowid_fresh [of db] by (simp add: db_ok_def)
  moreover have "0 < next_rowid db" using assms by (rule next_rowid_pos)
  ultimately show ?thesis
    using assms True by (simp add: POST_workouts_eq db_ok_def)
qed

lemma PUT_workout_ids:
  "map id_col (workouts (snd (PUT_workout i u db))) = map id_col (workouts db)"
proof (cases rule: query_get_cases [of i db])
  case 1
  then show ?thesis by (simp add: PUT_workout_overflow)
next
  case 2
  then show ?thesis by (simp add: PUT_workout_missing)
next
  case (3 w)
  show ?thesis
  proof (cases "int64 (load u) \<and> int64 (reps u)")
    case False
    with 3 show ?thesis by (simp add: PUT_workout_refused)
  next
    case True
    have "id_col w = Some i" using query_get_Some [OF 3(3)] by simp
    with 3 True show ?thesis
      by (simp add: PUT_workout_found comp_def cong: map_cong)
  qed
qed

lemma PUT_workout_db_ok:
  assumes "db_ok db"
  shows "db_ok (snd (PUT_workout i u db))"
proof -
  have "\<forall>r\<in>set (workouts (snd (PUT_workout i u db))). \<exists>k. id_col r = Some k \<and> 0 < k \<and> int64 k"
  proof
    fix r
    assume "r \<in> set (workouts (snd (PUT_workout i u db)))"
    then have "id_col r \<in> set (map id_col (workouts (snd (PUT_workout i u db))))" by simp
    then have "id_col r \<in> set (map id_col (workouts db))" by (simp only: PUT_workout_ids)
    then show "\<exists>k. id_col r = Some k \<and> 0 < k \<and> int64 k"
      using assms by (auto simp: db_ok_iff)
  qed
  with assms show ?thesis by (simp add: db_ok_iff PUT_workout_ids)
qed

lemma DELETE_workout_rows:
  "workouts (snd (DELETE_workout i db)) = workouts db
   \<or> workouts (snd (DELETE_workout i db)) = filter (\<lambda>r. id_col r \<noteq> Some i) (workouts db)"
proof (cases rule: query_get_cases [of i db])
  case 1
  then show ?thesis by (simp add: DELETE_workout_overflow)
next
  case 2
  then show ?thesis by (simp add: DELETE_workout_missing)
next
  case (3 w)
  then show ?thesis by (simp add: DELETE_workout_found)
qed

lemma DELETE_workout_db_ok:
  assumes "db_ok db"
  shows "db_ok (snd (DELETE_workout i db))"
  using assms DELETE_workout_rows [of i db]
  by (auto simp: db_ok_def distinct_map_filter list_all_iff)

lemma those_from_orm:
  "\<forall>r\<in>set rows. \<exists>k. id_col r = Some k \<Longrightarrow>
     \<exists>outs. map from_orm rows = map Some outs \<and> those (map from_orm rows) = Some outs"
proof (induction rows)
  case Nil
  then show ?case by simp
next
  case (Cons r rows)
  then obtain outs where outs: "map from_orm rows = map Some outs" "those (map from_orm rows) = Some outs"
    by auto
  from Cons.prems obtain k where "id_col r = Some k" by auto
  then obtain out where "from_orm r = Some out" by (simp add: from_orm_def)
  with outs have "map from_orm (r # rows) = map Some (out # outs) \<and> those (map from_orm (r # rows)) = Some (out # outs)"
    by simp
  then show ?case by blast
qed

lemma GET_workouts_ok:
  assumes "db_ok db"
  shows "\<exists>outs. map from_orm (workouts db) = map Some outs \<and>
           GET_workouts db = (\<lparr>status_code = 200, content = Array outs\<rparr>, db)"
proof -
  from assms have "\<forall>r\<in>set (workouts db). \<exists>k. id_col r = Some k" by (auto simp: db_ok_iff)
  from those_from_orm [OF this] obtain outs where
    "map from_orm (workouts db) = map Some outs" "those (map from_orm (workouts db)) = Some outs"
    by blast
  then show ?thesis by (auto simp: GET_workouts_def get_workouts_def query_all_def)
qed

lemma GET_workouts_state: "snd (GET_workouts db) = db"
  by (simp add: GET_workouts_def split: option.splits)

lemma app_db_ok:
  assumes "db_ok db"
  shows "db_ok (snd (app as_str as_int req db))"
  using assms
  by (cases req)
    (simp_all add: app_def POST_workouts_db_ok PUT_workout_db_ok DELETE_workout_db_ok
      GET_workout_def GET_workouts_state split: option.splits)

lemma reachable_db_ok: "reachable as_str as_int db \<Longrightarrow> db_ok db"
  by (induction rule: reachable.induct) (simp_all add: db_ok_empty app_db_ok)

lemma unsigned_no_digit: "\<forall>c\<in>set s. \<not> isdigit c \<Longrightarrow> unsigned s = None"
  by (cases s) (simp_all add: unsigned_def)

lemma set_strip: "set (strip s) \<subseteq> set s"
proof -
  have "set (dropWhile isspace (rev (dropWhile isspace s))) \<subseteq> set (rev (dropWhile isspace s))"
    by (auto dest: set_dropWhileD)
  moreover have "set (rev (dropWhile isspace s)) \<subseteq> set s"
    by (auto dest: set_dropWhileD)
  ultimately show ?thesis by (auto simp: strip_def)
qed

lemma py_int_no_digit:
  assumes "\<forall>c\<in>set s. \<not> isdigit c"
  shows "py_int s = None"
proof (cases "strip s")
  case Nil
  then show ?thesis by (simp add: py_int_def)
next
  case (Cons c cs)
  have sub: "set (c # cs) \<subseteq> set s" using set_strip [of s] Cons by simp
  with assms have all: "\<forall>x\<in>set (c # cs). \<not> isdigit x" by blast
  then have "unsigned (c # cs) = None" by (rule unsigned_no_digit)
  moreover from all have "unsigned cs = None" by (simp add: unsigned_no_digit)
  ultimately show ?thesis by (simp add: py_int_def Cons)
qed

lemma str_validator_refuses:
  "v = JNull \<or> (\<exists>xs. v = JArray xs) \<or> (\<exists>kvs. v = JObject kvs) \<Longrightarrow> str_validator v = None"
  by (auto simp: str_validator_def)

lemma int_validator_refuses:
  "v = JNull \<or> (\<exists>xs. v = JArray xs) \<or> (\<exists>kvs. v = JObject kvs)
   \<or> (\<exists>s. v = JStr s \<and> (\<forall>c\<in>set s. \<not> isdigit c)) \<Longrightarrow> int_validator v = None"
  by (auto simp: int_validator_def py_int_no_digit)

section \<open>The claims\<close>



text \<open>
  C2. After a Create that answered 201 with an Output, Get-one on the key of that
  Output, on the table the Create left, answers 200 with the same Output.
\<close>

theorem C2_get_after_create:
  assumes "POST_workouts workout db = (\<lparr>status_code = 201, content = Object out\<rparr>, db')"
  shows "GET_workout (id' out) db' = (\<lparr>status_code = 200, content = Object out\<rparr>, db')"
proof -
  let ?row = "\<lparr>id_col = Some (next_rowid db), title_col = title workout,
                load_col = load workout, reps_col = reps workout\<rparr>"
  have range: "int64 (load workout) \<and> int64 (reps workout) \<and> int64 (next_rowid db)"
  proof (rule ccontr)
    assume "\<not> (int64 (load workout) \<and> int64 (reps workout) \<and> int64 (next_rowid db))"
    from POST_workouts_refused [OF this] assms show False by simp
  qed
  then have eq: "POST_workouts workout db =
     (\<lparr>status_code = 201,
        content = Object \<lparr>title = title workout, load = load workout, reps = reps workout,
                         id' = next_rowid db\<rparr>\<rparr>,
      db\<lparr>workouts := workouts db @ [?row]\<rparr>)"
    by (simp add: POST_workouts_eq)
  from assms have out: "out = \<lparr>title = title workout, load = load workout, reps = reps workout,
                               id' = next_rowid db\<rparr>"
    and db': "db' = db\<lparr>workouts := workouts db @ [?row]\<rparr>"
    unfolding eq by simp_all
  have "find (\<lambda>r. id_col r = Some (next_rowid db)) (workouts db) = None"
    using next_rowid_fresh [of db] by (force simp: find_None_key)
  then have "query_get db' (next_rowid db) = Inr (Some ?row)"
    using range by (simp add: db' query_get_def find_append_key)
  from GET_workout_found [OF this] show ?thesis by (simp add: out)
qed

theorem C2_get_after_create_witness:
  "POST_workouts \<lparr>title = ''Bench'', load = 80, reps = 5\<rparr> \<lparr>workouts = []\<rparr> =
     (\<lparr>status_code = 201, content = Object \<lparr>title = ''Bench'', load = 80, reps = 5, id' = 1\<rparr>\<rparr>,
      \<lparr>workouts = [\<lparr>id_col = Some 1, title_col = ''Bench'', load_col = 80, reps_col = 5\<rparr>]\<rparr>)
   \<and> GET_workout 1 \<lparr>workouts = [\<lparr>id_col = Some 1, title_col = ''Bench'', load_col = 80, reps_col = 5\<rparr>]\<rparr> =
     (\<lparr>status_code = 200, content = Object \<lparr>title = ''Bench'', load = 80, reps = 5, id' = 1\<rparr>\<rparr>,
      \<lparr>workouts = [\<lparr>id_col = Some 1, title_col = ''Bench'', load_col = 80, reps_col = 5\<rparr>]\<rparr>)"
proof -
  have p: "POST_workouts \<lparr>title = ''Bench'', load = 80, reps = 5\<rparr> \<lparr>workouts = []\<rparr> =
     (\<lparr>status_code = 201, content = Object \<lparr>title = ''Bench'', load = 80, reps = 5, id' = 1\<rparr>\<rparr>,
      \<lparr>workouts = [\<lparr>id_col = Some 1, title_col = ''Bench'', load_col = 80, reps_col = 5\<rparr>]\<rparr>)"
    by (simp add: POST_workouts_def create_workout_def Workout_init_def add_commit_def int64_def
        next_rowid_def rowids_def refresh_def query_get_def response_model_def from_orm_def Let_def)
  show ?thesis using p C2_get_after_create [OF p] by simp
qed





text \<open>
  C5. For a key that a stored row has, Delete answers an empty 204, the table keeps
  exactly the rows of the other keys, and Get-one on the key then answers 404. The
  table is one the service can be in (\<open>db_ok\<close>), so the key of a stored row is an
  integer of the engine.
\<close>

theorem C5_delete_removes:
  assumes "db_ok db" and "Some i \<in> id_col ` set (workouts db)"
  shows "fst (DELETE_workout i db) = \<lparr>status_code = 204, content = Empty\<rparr>
         \<and> workouts (snd (DELETE_workout i db)) = filter (\<lambda>r. id_col r \<noteq> Some i) (workouts db)
         \<and> Some i \<notin> id_col ` set (workouts (snd (DELETE_workout i db)))
         \<and> GET_workout i (snd (DELETE_workout i db)) =
             (\<lparr>status_code = 404, content = Detail ''Workout not found''\<rparr>,
              snd (DELETE_workout i db))"
proof -
  have i: "int64 i" using db_ok_key [OF assms] by simp
  from query_get_found [OF i assms(2)] obtain w where w: "query_get db i = Inr (Some w)"
    by blast
  have gone: "Some i \<notin> id_col ` set (workouts (snd (DELETE_workout i db)))"
    by (auto simp: DELETE_workout_found [OF w])
  from GET_workout_missing [OF i gone] gone show ?thesis
    by (simp add: DELETE_workout_found [OF w])
qed

theorem C5_delete_removes_witness:
  "db_ok \<lparr>workouts = [\<lparr>id_col = Some 1, title_col = ''Bench'', load_col = 80, reps_col = 5\<rparr>]\<rparr>
   \<and> Some 1 \<in> id_col ` set (workouts \<lparr>workouts = [\<lparr>id_col = Some 1, title_col = ''Bench'', load_col = 80, reps_col = 5\<rparr>]\<rparr>)
   \<and> DELETE_workout 1 \<lparr>workouts = [\<lparr>id_col = Some 1, title_col = ''Bench'', load_col = 80, reps_col = 5\<rparr>]\<rparr>
      = (\<lparr>status_code = 204, content = Empty\<rparr>, \<lparr>workouts = []\<rparr>)
   \<and> GET_workout 1 \<lparr>workouts = []\<rparr>
      = (\<lparr>status_code = 404, content = Detail ''Workout not found''\<rparr>, \<lparr>workouts = []\<rparr>)"
proof -
  let ?db = "\<lparr>workouts = [\<lparr>id_col = Some 1, title_col = ''Bench'', load_col = 80, reps_col = 5\<rparr>]\<rparr>"
  have ok: "db_ok ?db" by (simp add: db_ok_def int64_def)
  have h: "Some 1 \<in> id_col ` set (workouts ?db)" by simp
  have s: "snd (DELETE_workout 1 ?db) = \<lparr>workouts = []\<rparr>"
    by (simp add: DELETE_workout_def delete_workout_def query_get_def int64_def delete_commit_def)
  show ?thesis
    using ok h C5_delete_removes [OF ok h] unfolding s
    by (simp add: prod_eq_iff s)
qed

text \<open>
  C6. List takes nothing but the session. On a table that satisfies the invariant it
  answers 200 with the Outputs of exactly the stored rows, in storage order, and
  leaves the table as it was; on the empty table it answers the empty list; and
  after two Creates that answered 201 the list holds both returned Outputs, which
  differ in their id, so it has at least two entries.
\<close>

theorem C6_list_returns_all_rows:
  assumes "db_ok db"
  shows "(\<exists>outs. map from_orm (workouts db) = map Some outs
            \<and> GET_workouts db = (\<lparr>status_code = 200, content = Array outs\<rparr>, db))
         \<and> GET_workouts \<lparr>workouts = []\<rparr> =
             (\<lparr>status_code = 200, content = Array []\<rparr>, \<lparr>workouts = []\<rparr>)
         \<and> (\<forall>o1 o2.
               fst (POST_workouts w1 db) = \<lparr>status_code = 201, content = Object o1\<rparr>
             \<and> fst (POST_workouts w2 (snd (POST_workouts w1 db))) =
                 \<lparr>status_code = 201, content = Object o2\<rparr>
             \<longrightarrow> (\<exists>outs.
               GET_workouts (snd (POST_workouts w2 (snd (POST_workouts w1 db)))) =
                 (\<lparr>status_code = 200, content = Array outs\<rparr>,
                  snd (POST_workouts w2 (snd (POST_workouts w1 db))))
             \<and> o1 \<in> set outs \<and> o2 \<in> set outs \<and> id' o1 \<noteq> id' o2 \<and> 2 \<le> length outs))"
proof (intro conjI allI impI)
  show "\<exists>outs. map from_orm (workouts db) = map Some outs
            \<and> GET_workouts db = (\<lparr>status_code = 200, content = Array outs\<rparr>, db)"
    using assms by (rule GET_workouts_ok)
  show "GET_workouts \<lparr>workouts = []\<rparr> =
          (\<lparr>status_code = 200, content = Array []\<rparr>, \<lparr>workouts = []\<rparr>)"
    by (simp add: GET_workouts_def get_workouts_def query_all_def)
next
  fix o1 o2
  let ?db1 = "snd (POST_workouts w1 db)"
  let ?db2 = "snd (POST_workouts w2 ?db1)"
  let ?n1 = "next_rowid db"
  let ?n2 = "next_rowid ?db1"
  let ?r1 = "\<lparr>id_col = Some ?n1, title_col = title w1, load_col = load w1, reps_col = reps w1\<rparr>"
  let ?r2 = "\<lparr>id_col = Some ?n2, title_col = title w2, load_col = load w2, reps_col = reps w2\<rparr>"
  let ?o1 = "\<lparr>title = title w1, load = load w1, reps = reps w1, id' = ?n1\<rparr>"
  let ?o2 = "\<lparr>title = title w2, load = load w2, reps = reps w2, id' = ?n2\<rparr>"
  assume created: "fst (POST_workouts w1 db) = \<lparr>status_code = 201, content = Object o1\<rparr>
      \<and> fst (POST_workouts w2 ?db1) = \<lparr>status_code = 201, content = Object o2\<rparr>"
  have range1: "int64 (load w1) \<and> int64 (reps w1) \<and> int64 ?n1"
  proof (rule ccontr)
    assume "\<not> (int64 (load w1) \<and> int64 (reps w1) \<and> int64 ?n1)"
    from POST_workouts_refused [OF this] created show False by simp
  qed
  then have p1: "POST_workouts w1 db =
      (\<lparr>status_code = 201, content = Object ?o1\<rparr>, db\<lparr>workouts := workouts db @ [?r1]\<rparr>)"
    by (simp add: POST_workouts_eq)
  have range2: "int64 (load w2) \<and> int64 (reps w2) \<and> int64 ?n2"
  proof (rule ccontr)
    assume "\<not> (int64 (load w2) \<and> int64 (reps w2) \<and> int64 ?n2)"
    from POST_workouts_refused [OF this] created show False by simp
  qed
  then have p2: "POST_workouts w2 ?db1 =
      (\<lparr>status_code = 201, content = Object ?o2\<rparr>, ?db1\<lparr>workouts := workouts ?db1 @ [?r2]\<rparr>)"
    by (simp add: POST_workouts_eq)
  have o1: "o1 = ?o1" using created by (simp add: p1)
  have o2: "o2 = ?o2" using created by (simp add: p2)
  have rows1: "workouts ?db1 = workouts db @ [?r1]" by (simp add: p1)
  have rows2: "workouts ?db2 = workouts db @ [?r1, ?r2]" by (simp add: p2 rows1)
  have ok2: "db_ok ?db2" using assms by (simp add: POST_workouts_db_ok)
  from GET_workouts_ok [OF ok2] obtain outs where
    outs: "map from_orm (workouts ?db2) = map Some outs"
    and get: "GET_workouts ?db2 = (\<lparr>status_code = 200, content = Array outs\<rparr>, ?db2)"
    by blast
  have "Some ?o1 \<in> set (map from_orm (workouts ?db2))"
    unfolding rows2 by (simp add: from_orm_def)
  then have m1: "o1 \<in> set outs" unfolding outs o1 by auto
  have "Some ?o2 \<in> set (map from_orm (workouts ?db2))"
    unfolding rows2 by (simp add: from_orm_def)
  then have m2: "o2 \<in> set outs" unfolding outs o2 by auto
  have "length outs = length (workouts ?db2)"
    using arg_cong [OF outs, of length] by simp
  then have len: "2 \<le> length outs" by (simp add: rows2)
  have "Some ?n1 \<in> id_col ` set (workouts ?db1)" by (simp add: rows1)
  then have "?n1 < ?n2" by (rule next_rowid_greater)
  then have ne: "id' o1 \<noteq> id' o2" by (simp add: o1 o2)
  from get m1 m2 ne len
  show "\<exists>outs. GET_workouts ?db2 = (\<lparr>status_code = 200, content = Array outs\<rparr>, ?db2)
             \<and> o1 \<in> set outs \<and> o2 \<in> set outs \<and> id' o1 \<noteq> id' o2 \<and> 2 \<le> length outs"
    by blast
qed

theorem C6_list_witness:
  "db_ok \<lparr>workouts = []\<rparr>
   \<and> POST_workouts \<lparr>title = ''Bench'', load = 80, reps = 5\<rparr> \<lparr>workouts = []\<rparr> =
       (\<lparr>status_code = 201, content = Object \<lparr>title = ''Bench'', load = 80, reps = 5, id' = 1\<rparr>\<rparr>,
        \<lparr>workouts = [\<lparr>id_col = Some 1, title_col = ''Bench'', load_col = 80, reps_col = 5\<rparr>]\<rparr>)
   \<and> POST_workouts \<lparr>title = ''Squat'', load = 100, reps = 8\<rparr>
         \<lparr>workouts = [\<lparr>id_col = Some 1, title_col = ''Bench'', load_col = 80, reps_col = 5\<rparr>]\<rparr> =
       (\<lparr>status_code = 201, content = Object \<lparr>title = ''Squat'', load = 100, reps = 8, id' = 2\<rparr>\<rparr>,
        \<lparr>workouts = [\<lparr>id_col = Some 1, title_col = ''Bench'', load_col = 80, reps_col = 5\<rparr>,
                     \<lparr>id_col = Some 2, title_col = ''Squat'', load_col = 100, reps_col = 8\<rparr>]\<rparr>)
   \<and> (\<exists>outs. GET_workouts
         \<lparr>workouts = [\<lparr>id_col = Some 1, title_col = ''Bench'', load_col = 80, reps_col = 5\<rparr>,
                      \<lparr>id_col = Some 2, title_col = ''Squat'', load_col = 100, reps_col = 8\<rparr>]\<rparr> =
       (\<lparr>status_code = 200, content = Array outs\<rparr>,
        \<lparr>workouts = [\<lparr>id_col = Some 1, title_col = ''Bench'', load_col = 80, reps_col = 5\<rparr>,
                     \<lparr>id_col = Some 2, title_col = ''Squat'', load_col = 100, reps_col = 8\<rparr>]\<rparr>)
       \<and> \<lparr>title = ''Bench'', load = 80, reps = 5, id' = 1\<rparr> \<in> set outs
       \<and> \<lparr>title = ''Squat'', load = 100, reps = 8, id' = 2\<rparr> \<in> set outs
       \<and> 2 \<le> length outs)
   \<and> GET_workouts \<lparr>workouts = []\<rparr> =
       (\<lparr>status_code = 200, content = Array []\<rparr>, \<lparr>workouts = []\<rparr>)"
proof -
  let ?w1 = "\<lparr>title = ''Bench'', load = 80, reps = 5\<rparr>"
  let ?w2 = "\<lparr>title = ''Squat'', load = 100, reps = 8\<rparr>"
  let ?o1 = "\<lparr>title = ''Bench'', load = 80, reps = 5, id' = 1\<rparr>"
  let ?o2 = "\<lparr>title = ''Squat'', load = 100, reps = 8, id' = 2\<rparr>"
  let ?e = "\<lparr>workouts = []\<rparr>"
  have ok: "db_ok ?e" by (simp add: db_ok_def)
  have p1: "POST_workouts ?w1 ?e =
       (\<lparr>status_code = 201, content = Object ?o1\<rparr>,
        \<lparr>workouts = [\<lparr>id_col = Some 1, title_col = ''Bench'', load_col = 80, reps_col = 5\<rparr>]\<rparr>)"
    by (simp add: POST_workouts_def create_workout_def Workout_init_def add_commit_def int64_def
        next_rowid_def rowids_def refresh_def query_get_def response_model_def from_orm_def Let_def)
  have p2: "POST_workouts ?w2
         \<lparr>workouts = [\<lparr>id_col = Some 1, title_col = ''Bench'', load_col = 80, reps_col = 5\<rparr>]\<rparr> =
       (\<lparr>status_code = 201, content = Object ?o2\<rparr>,
        \<lparr>workouts = [\<lparr>id_col = Some 1, title_col = ''Bench'', load_col = 80, reps_col = 5\<rparr>,
                     \<lparr>id_col = Some 2, title_col = ''Squat'', load_col = 100, reps_col = 8\<rparr>]\<rparr>)"
    by (simp add: POST_workouts_def create_workout_def Workout_init_def add_commit_def int64_def
        next_rowid_def rowids_def refresh_def query_get_def response_model_def from_orm_def Let_def)
  have c: "fst (POST_workouts ?w1 ?e) = \<lparr>status_code = 201, content = Object ?o1\<rparr>
      \<and> fst (POST_workouts ?w2 (snd (POST_workouts ?w1 ?e))) =
          \<lparr>status_code = 201, content = Object ?o2\<rparr>"
    by (simp add: p1 p2)
  note all = C6_list_returns_all_rows [OF ok, of ?w1 ?w2]
  from all have "\<forall>o1 o2.
        fst (POST_workouts ?w1 ?e) = \<lparr>status_code = 201, content = Object o1\<rparr>
      \<and> fst (POST_workouts ?w2 (snd (POST_workouts ?w1 ?e))) =
          \<lparr>status_code = 201, content = Object o2\<rparr>
      \<longrightarrow> (\<exists>outs.
        GET_workouts (snd (POST_workouts ?w2 (snd (POST_workouts ?w1 ?e)))) =
          (\<lparr>status_code = 200, content = Array outs\<rparr>,
           snd (POST_workouts ?w2 (snd (POST_workouts ?w1 ?e))))
      \<and> o1 \<in> set outs \<and> o2 \<in> set outs \<and> id' o1 \<noteq> id' o2 \<and> 2 \<le> length outs)"
    by (rule conjunct2 [OF conjunct2])
  with c have "\<exists>outs.
        GET_workouts (snd (POST_workouts ?w2 (snd (POST_workouts ?w1 ?e)))) =
          (\<lparr>status_code = 200, content = Array outs\<rparr>,
           snd (POST_workouts ?w2 (snd (POST_workouts ?w1 ?e))))
      \<and> ?o1 \<in> set outs \<and> ?o2 \<in> set outs \<and> id' ?o1 \<noteq> id' ?o2 \<and> 2 \<le> length outs"
    by blast
  then have l: "\<exists>outs. GET_workouts
         \<lparr>workouts = [\<lparr>id_col = Some 1, title_col = ''Bench'', load_col = 80, reps_col = 5\<rparr>,
                      \<lparr>id_col = Some 2, title_col = ''Squat'', load_col = 100, reps_col = 8\<rparr>]\<rparr> =
       (\<lparr>status_code = 200, content = Array outs\<rparr>,
        \<lparr>workouts = [\<lparr>id_col = Some 1, title_col = ''Bench'', load_col = 80, reps_col = 5\<rparr>,
                     \<lparr>id_col = Some 2, title_col = ''Squat'', load_col = 100, reps_col = 8\<rparr>]\<rparr>)
       \<and> ?o1 \<in> set outs \<and> ?o2 \<in> set outs \<and> 2 \<le> length outs"
    unfolding p1 p2 snd_conv by blast
  have e: "GET_workouts ?e = (\<lparr>status_code = 200, content = Array []\<rparr>, ?e)"
    using all by (rule conjunct1 [OF conjunct2])
  from ok p1 p2 l e show ?thesis by (intro conjI)
qed

text \<open>
  C7. Every request keeps the invariant, so no two stored rows ever share a key; and
  no request changes the key of a row: an Update, a Get-one and a List leave the
  column of keys as it was, position by position, a Create only appends the new key,
  and a Delete only removes the key it was given.
\<close>

theorem C7_id_immutable_and_unique:
  assumes "db_ok db"
  shows "db_ok (snd (app as_str as_int req db))
         \<and> distinct (map id_col (workouts (snd (app as_str as_int req db))))
         \<and> (case req of
               POST body \<Rightarrow>
                 map id_col (workouts (snd (app as_str as_int req db))) = map id_col (workouts db)
                 \<or> map id_col (workouts (snd (app as_str as_int req db))) =
                     map id_col (workouts db) @ [Some (next_rowid db)]
             | DELETE workout_id \<Rightarrow>
                 map id_col (workouts (snd (app as_str as_int req db))) =
                   filter (\<lambda>k. k \<noteq> Some workout_id) (map id_col (workouts db))
             | _ \<Rightarrow>
                 map id_col (workouts (snd (app as_str as_int req db))) = map id_col (workouts db))
         \<and> map id_col (workouts (snd (PUT_workout i u db))) = map id_col (workouts db)"
proof -
  have post_ids: "map id_col (workouts (snd (POST_workouts w db))) = map id_col (workouts db)
      \<or> map id_col (workouts (snd (POST_workouts w db))) =
          map id_col (workouts db) @ [Some (next_rowid db)]" for w
  proof (cases "int64 (load w) \<and> int64 (reps w) \<and> int64 (next_rowid db)")
    case True
    then show ?thesis by (simp add: POST_workouts_eq)
  next
    case False
    then show ?thesis by (simp add: POST_workouts_refused)
  qed
  have absent: "filter (\<lambda>k. k \<noteq> Some j) (map id_col (workouts db)) = map id_col (workouts db)"
    if "Some j \<notin> id_col ` set (workouts db)" for j
    using that by (force simp: filter_id_conv)
  have del_ids: "map id_col (workouts (snd (DELETE_workout j db))) =
      filter (\<lambda>k. k \<noteq> Some j) (map id_col (workouts db))" for j
  proof (cases rule: query_get_cases [of j db])
    case 1
    have "Some j \<notin> id_col ` set (workouts db)"
      using db_ok_key [OF assms, of j] 1(1) by blast
    with 1 show ?thesis by (simp add: DELETE_workout_overflow absent)
  next
    case 2
    then show ?thesis by (simp add: DELETE_workout_missing absent)
  next
    case (3 w)
    then show ?thesis by (simp add: DELETE_workout_found filter_map comp_def)
  qed
  have ok: "db_ok (snd (app as_str as_int req db))"
    using assms by (rule app_db_ok)
  then have dist: "distinct (map id_col (workouts (snd (app as_str as_int req db))))"
    by (simp add: db_ok_def)
  have ids: "(case req of
               POST body \<Rightarrow>
                 map id_col (workouts (snd (app as_str as_int req db))) = map id_col (workouts db)
                 \<or> map id_col (workouts (snd (app as_str as_int req db))) =
                     map id_col (workouts db) @ [Some (next_rowid db)]
             | DELETE workout_id \<Rightarrow>
                 map id_col (workouts (snd (app as_str as_int req db))) =
                   filter (\<lambda>k. k \<noteq> Some workout_id) (map id_col (workouts db))
             | _ \<Rightarrow>
                 map id_col (workouts (snd (app as_str as_int req db))) = map id_col (workouts db))"
    using post_ids
    by (cases req)
      (simp_all add: app_def PUT_workout_ids del_ids GET_workout_def GET_workouts_state
        split: option.splits)
  from ok dist ids show ?thesis by (simp add: PUT_workout_ids)
qed

theorem C7_id_witness:
  "db_ok \<lparr>workouts = [\<lparr>id_col = Some 1, title_col = ''Bench'', load_col = 80, reps_col = 5\<rparr>]\<rparr>
   \<and> app str_validator int_validator
        (PUT 1 [''title'' \<mapsto> JStr ''Squat'', ''load'' \<mapsto> JInt 100, ''reps'' \<mapsto> JInt 8])
        \<lparr>workouts = [\<lparr>id_col = Some 1, title_col = ''Bench'', load_col = 80, reps_col = 5\<rparr>]\<rparr>
      = (\<lparr>status_code = 200,
           content = Object \<lparr>title = ''Squat'', load = 100, reps = 8, id' = 1\<rparr>\<rparr>,
         \<lparr>workouts = [\<lparr>id_col = Some 1, title_col = ''Squat'', load_col = 100, reps_col = 8\<rparr>]\<rparr>)
   \<and> db_ok \<lparr>workouts = [\<lparr>id_col = Some 1, title_col = ''Squat'', load_col = 100, reps_col = 8\<rparr>]\<rparr>
   \<and> map id_col (workouts \<lparr>workouts = [\<lparr>id_col = Some 1, title_col = ''Squat'', load_col = 100, reps_col = 8\<rparr>]\<rparr>)
      = map id_col (workouts \<lparr>workouts = [\<lparr>id_col = Some 1, title_col = ''Bench'', load_col = 80, reps_col = 5\<rparr>]\<rparr>)"
proof -
  let ?db = "\<lparr>workouts = [\<lparr>id_col = Some 1, title_col = ''Bench'', load_col = 80, reps_col = 5\<rparr>]\<rparr>"
  let ?body = "[''title'' \<mapsto> JStr ''Squat'', ''load'' \<mapsto> JInt 100, ''reps'' \<mapsto> JInt 8]"
  have ok: "db_ok ?db" by (simp add: db_ok_def int64_def)
  have a: "app str_validator int_validator (PUT 1 ?body) ?db
      = (\<lparr>status_code = 200,
           content = Object \<lparr>title = ''Squat'', load = 100, reps = 8, id' = 1\<rparr>\<rparr>,
         \<lparr>workouts = [\<lparr>id_col = Some 1, title_col = ''Squat'', load_col = 100, reps_col = 8\<rparr>]\<rparr>)"
    by (simp add: app_def validate_def str_validator_def int_validator_def PUT_workout_def
        update_workout_def query_get_def int64_def dict_def commit_dirty_def refresh_def
        response_model_def from_orm_def Let_def)
  show ?thesis
    using ok C7_id_immutable_and_unique [OF ok, of str_validator int_validator "PUT 1 ?body" 1
        "\<lparr>title = ''Squat'', load = 100, reps = 8\<rparr>"]
    unfolding a by simp
qed




text \<open>
  C9. A request changes at most the rows of the key it addresses. A Create that
  answers 201 appends one row under the generated key and keeps every stored row, and
  a Create that answers anything else returns the table as it was; List and Get-one
  return the table they were given; after an Update or a Delete of key \<open>i\<close> the
  rows of every other key are the same rows in the same order; and an Update or a
  Delete that answers 404 returns the whole table as it was.
\<close>

theorem C9_only_the_addressed_row_changes:
  "(status_code (fst (POST_workouts workout db)) = 201 \<longrightarrow>
      workouts (snd (POST_workouts workout db)) =
        workouts db @ [\<lparr>id_col = Some (next_rowid db), title_col = title workout,
                         load_col = load workout, reps_col = reps workout\<rparr>])
   \<and> (status_code (fst (POST_workouts workout db)) \<noteq> 201 \<longrightarrow>
      snd (POST_workouts workout db) = db)
   \<and> filter (\<lambda>r. id_col r \<noteq> Some (next_rowid db)) (workouts (snd (POST_workouts workout db))) =
       workouts db
   \<and> snd (GET_workouts db) = db
   \<and> snd (GET_workout i db) = db
   \<and> filter (\<lambda>r. id_col r \<noteq> Some i) (workouts (snd (PUT_workout i u db))) =
       filter (\<lambda>r. id_col r \<noteq> Some i) (workouts db)
   \<and> filter (\<lambda>r. id_col r \<noteq> Some i) (workouts (snd (DELETE_workout i db))) =
       filter (\<lambda>r. id_col r \<noteq> Some i) (workouts db)
   \<and> (status_code (fst (PUT_workout i u db)) = 404 \<longrightarrow> snd (PUT_workout i u db) = db)
   \<and> (status_code (fst (DELETE_workout i db)) = 404 \<longrightarrow> snd (DELETE_workout i db) = db)"
proof -
  have fresh: "filter (\<lambda>r. id_col r \<noteq> Some (next_rowid db)) (workouts db) = workouts db"
    using next_rowid_fresh [of db] by (force simp: filter_id_conv)
  have post: "(status_code (fst (POST_workouts workout db)) = 201 \<longrightarrow>
      workouts (snd (POST_workouts workout db)) =
        workouts db @ [\<lparr>id_col = Some (next_rowid db), title_col = title workout,
                         load_col = load workout, reps_col = reps workout\<rparr>])
   \<and> (status_code (fst (POST_workouts workout db)) \<noteq> 201 \<longrightarrow>
      snd (POST_workouts workout db) = db)
   \<and> filter (\<lambda>r. id_col r \<noteq> Some (next_rowid db)) (workouts (snd (POST_workouts workout db))) =
       workouts db"
  proof (cases "int64 (load workout) \<and> int64 (reps workout) \<and> int64 (next_rowid db)")
    case True
    then show ?thesis by (simp add: POST_workouts_eq fresh)
  next
    case False
    then show ?thesis by (simp add: POST_workouts_refused fresh)
  qed
  have get_all: "snd (GET_workouts db) = db"
    by (rule GET_workouts_state)
  have put: "filter (\<lambda>r. id_col r \<noteq> Some i) (workouts (snd (PUT_workout i u db))) =
       filter (\<lambda>r. id_col r \<noteq> Some i) (workouts db)
     \<and> (status_code (fst (PUT_workout i u db)) = 404 \<longrightarrow> snd (PUT_workout i u db) = db)"
  proof (cases rule: query_get_cases [of i db])
    case 1
    then show ?thesis by (simp add: PUT_workout_overflow)
  next
    case 2
    then show ?thesis by (simp add: PUT_workout_missing)
  next
    case (3 w)
    show ?thesis
    proof (cases "int64 (load u) \<and> int64 (reps u)")
      case False
      with 3 show ?thesis by (simp add: PUT_workout_refused)
    next
      case True
      let ?w' = "w\<lparr>title_col := title u, load_col := load u, reps_col := reps u\<rparr>"
      have "id_col ?w' = Some i" using query_get_Some [OF 3(3)] by simp
      then have "filter (\<lambda>r. id_col r \<noteq> Some i) (map (\<lambda>r. if id_col r = Some i then ?w' else r) rows) =
          filter (\<lambda>r. id_col r \<noteq> Some i) rows" for rows
        by (induction rows) auto
      with 3 True show ?thesis by (simp add: PUT_workout_found)
    qed
  qed
  have del: "filter (\<lambda>r. id_col r \<noteq> Some i) (workouts (snd (DELETE_workout i db))) =
       filter (\<lambda>r. id_col r \<noteq> Some i) (workouts db)
     \<and> (status_code (fst (DELETE_workout i db)) = 404 \<longrightarrow> snd (DELETE_workout i db) = db)"
  proof (cases rule: query_get_cases [of i db])
    case 1
    then show ?thesis by (simp add: DELETE_workout_overflow)
  next
    case 2
    then show ?thesis by (simp add: DELETE_workout_missing)
  next
    case (3 w)
    then show ?thesis by (simp add: DELETE_workout_found)
  qed
  from post get_all put del show ?thesis
    by (simp add: GET_workout_def)
qed

theorem C9_frame_witness:
  "status_code (fst (POST_workouts \<lparr>title = ''Bench'', load = 80, reps = 5\<rparr> \<lparr>workouts = []\<rparr>)) = 201
   \<and> workouts (snd (POST_workouts \<lparr>title = ''Bench'', load = 80, reps = 5\<rparr> \<lparr>workouts = []\<rparr>))
     = [\<lparr>id_col = Some 1, title_col = ''Bench'', load_col = 80, reps_col = 5\<rparr>]
   \<and> status_code (fst (POST_workouts \<lparr>title = ''Bench'', load = 9223372036854775808, reps = 5\<rparr>
        \<lparr>workouts = []\<rparr>)) \<noteq> 201
   \<and> snd (POST_workouts \<lparr>title = ''Bench'', load = 9223372036854775808, reps = 5\<rparr> \<lparr>workouts = []\<rparr>)
     = \<lparr>workouts = []\<rparr>
   \<and> status_code (fst (PUT_workout 7 \<lparr>title = ''Squat'', load = 100, reps = 8\<rparr>
      \<lparr>workouts = [\<lparr>id_col = Some 1, title_col = ''Bench'', load_col = 80, reps_col = 5\<rparr>]\<rparr>)) = 404
   \<and> snd (PUT_workout 7 \<lparr>title = ''Squat'', load = 100, reps = 8\<rparr>
      \<lparr>workouts = [\<lparr>id_col = Some 1, title_col = ''Bench'', load_col = 80, reps_col = 5\<rparr>]\<rparr>)
     = \<lparr>workouts = [\<lparr>id_col = Some 1, title_col = ''Bench'', load_col = 80, reps_col = 5\<rparr>]\<rparr>
   \<and> status_code (fst (DELETE_workout 7
      \<lparr>workouts = [\<lparr>id_col = Some 1, title_col = ''Bench'', load_col = 80, reps_col = 5\<rparr>]\<rparr>)) = 404
   \<and> snd (DELETE_workout 7
      \<lparr>workouts = [\<lparr>id_col = Some 1, title_col = ''Bench'', load_col = 80, reps_col = 5\<rparr>]\<rparr>)
     = \<lparr>workouts = [\<lparr>id_col = Some 1, title_col = ''Bench'', load_col = 80, reps_col = 5\<rparr>]\<rparr>"
proof -
  let ?e = "\<lparr>workouts = []\<rparr>"
  let ?db = "\<lparr>workouts = [\<lparr>id_col = Some 1, title_col = ''Bench'', load_col = 80, reps_col = 5\<rparr>]\<rparr>"
  let ?u = "\<lparr>title = ''Squat'', load = 100, reps = 8\<rparr>"
  let ?w = "\<lparr>title = ''Bench'', load = 80, reps = 5\<rparr>"
  let ?big = "\<lparr>title = ''Bench'', load = 9223372036854775808, reps = 5\<rparr>"
  have n: "next_rowid ?e = 1" by (simp add: next_rowid_def rowids_def)
  have c: "status_code (fst (POST_workouts ?w ?e)) = 201"
    by (simp add: POST_workouts_def create_workout_def Workout_init_def add_commit_def int64_def
        next_rowid_def rowids_def refresh_def query_get_def response_model_def from_orm_def Let_def)
  have f: "status_code (fst (POST_workouts ?big ?e)) \<noteq> 201"
    by (simp add: POST_workouts_def create_workout_def Workout_init_def add_commit_def int64_def
        response_model_def error_response_def)
  have p: "status_code (fst (PUT_workout 7 ?u ?db)) = 404"
    by (simp add: PUT_workout_def update_workout_def query_get_def int64_def response_model_def
        error_response_def)
  have d: "status_code (fst (DELETE_workout 7 ?db)) = 404"
    by (simp add: DELETE_workout_def delete_workout_def query_get_def int64_def error_response_def)
  show ?thesis
    using c f p d
      C9_only_the_addressed_row_changes [of ?w ?e 7 ?u]
      C9_only_the_addressed_row_changes [of ?big ?e 7 ?u]
      C9_only_the_addressed_row_changes [of ?w ?db 7 ?u]
    by (simp add: n)
qed

text \<open>
  C10. Update is idempotent: a second Update with the same key and payload, on the
  table the first one left, gives the same answer and the same table as the first.
\<close>

theorem C10_update_idempotent:
  "PUT_workout i u (snd (PUT_workout i u db)) = PUT_workout i u db"
proof (cases rule: query_get_cases [of i db])
  case 1
  then show ?thesis by (simp add: PUT_workout_overflow)
next
  case 2
  then show ?thesis by (simp add: PUT_workout_missing)
next
  case (3 w)
  show ?thesis
  proof (cases "int64 (load u) \<and> int64 (reps u)")
    case False
    with 3 show ?thesis by (simp add: PUT_workout_refused)
  next
    case True
    let ?w' = "w\<lparr>title_col := title u, load_col := load u, reps_col := reps u\<rparr>"
    let ?db' = "db\<lparr>workouts := map (\<lambda>r. if id_col r = Some i then ?w' else r) (workouts db)\<rparr>"
    have id: "id_col ?w' = Some i" and mem: "w \<in> set (workouts db)"
      using query_get_Some [OF 3(3)] by simp_all
    have first: "PUT_workout i u db =
       (\<lparr>status_code = 200,
          content = Object \<lparr>title = title u, load = load u, reps = reps u, id' = i\<rparr>\<rparr>, ?db')"
      using 3(3) True by (simp add: PUT_workout_found)
    have "\<exists>x\<in>set (workouts db). id_col x = Some i"
      using query_get_Some [OF 3(3)] by blast
    then have "find (\<lambda>r. id_col r = Some i) (workouts ?db') = Some ?w'"
      using find_replace [of "\<lambda>r. id_col r = Some i" ?w' "workouts db"] id by simp
    then have again: "query_get ?db' i = Inr (Some ?w')"
      using 3(1) by (simp add: query_get_def)
    have same: "?db'\<lparr>workouts := map (\<lambda>r. if id_col r = Some i
          then ?w'\<lparr>title_col := title u, load_col := load u, reps_col := reps u\<rparr> else r)
          (workouts ?db')\<rparr> = ?db'"
      using id by simp
    have "PUT_workout i u ?db' =
       (\<lparr>status_code = 200,
          content = Object \<lparr>title = title u, load = load u, reps = reps u, id' = i\<rparr>\<rparr>, ?db')"
      using PUT_workout_found [OF again, of u] True same by simp
    then show ?thesis by (simp add: first)
  qed
qed

theorem C10_update_idempotent_witness:
  "PUT_workout 1 \<lparr>title = ''Squat'', load = 100, reps = 8\<rparr>
     \<lparr>workouts = [\<lparr>id_col = Some 1, title_col = ''Bench'', load_col = 80, reps_col = 5\<rparr>]\<rparr>
   = (\<lparr>status_code = 200,
        content = Object \<lparr>title = ''Squat'', load = 100, reps = 8, id' = 1\<rparr>\<rparr>,
      \<lparr>workouts = [\<lparr>id_col = Some 1, title_col = ''Squat'', load_col = 100, reps_col = 8\<rparr>]\<rparr>)
   \<and> PUT_workout 1 \<lparr>title = ''Squat'', load = 100, reps = 8\<rparr>
     \<lparr>workouts = [\<lparr>id_col = Some 1, title_col = ''Squat'', load_col = 100, reps_col = 8\<rparr>]\<rparr>
   = (\<lparr>status_code = 200,
        content = Object \<lparr>title = ''Squat'', load = 100, reps = 8, id' = 1\<rparr>\<rparr>,
      \<lparr>workouts = [\<lparr>id_col = Some 1, title_col = ''Squat'', load_col = 100, reps_col = 8\<rparr>]\<rparr>)"
proof -
  let ?db = "\<lparr>workouts = [\<lparr>id_col = Some 1, title_col = ''Bench'', load_col = 80, reps_col = 5\<rparr>]\<rparr>"
  let ?u = "\<lparr>title = ''Squat'', load = 100, reps = 8\<rparr>"
  have p: "PUT_workout 1 ?u ?db
   = (\<lparr>status_code = 200,
        content = Object \<lparr>title = ''Squat'', load = 100, reps = 8, id' = 1\<rparr>\<rparr>,
      \<lparr>workouts = [\<lparr>id_col = Some 1, title_col = ''Squat'', load_col = 100, reps_col = 8\<rparr>]\<rparr>)"
    by (simp add: PUT_workout_def update_workout_def query_get_def int64_def dict_def
        commit_dirty_def refresh_def response_model_def from_orm_def Let_def)
  show ?thesis
    using C10_update_idempotent [of 1 ?u ?db] unfolding p by simp
qed

end
